theory Spec2Isabelle
  imports Complex_Main "HOL-Library.While_Combinator"
begin

section \<open>Python values shared by the schedulers\<close>

text \<open>
  Exceptions of the Python code are values: a function that can raise returns
  \<open>py_error + 'a\<close>, with \<open>Inl\<close> for the exception. Python floats are modelled as
  reals (no rounding, no overflow, no NaN), Python ints as \<open>int\<close>.
\<close>

datatype py_error =
    TypeError string
  | ValueError string
  | ZeroDivisionError
  | OverflowError
  | RuntimeError string
  | NotInitializedError string
  | FileNotFoundError string

text \<open>Decimal rendering of a non-negative count, as \<open>"{}".format(n)\<close> prints it.\<close>

fun str_nat :: "nat \<Rightarrow> string" where
  "str_nat n =
     (if n < 10 then [''0123456789'' ! n]
      else str_nat (n div 10) @ [''0123456789'' ! (n mod 10)])"

declare str_nat.simps [simp del]

text \<open>
  An optimizer holds a list of parameter groups; each group is a dictionary of which the
  schedulers read and write only the key \<open>'lr'\<close>.
\<close>

record param_group =
  lr :: real

record optimizer =
  param_groups :: "param_group list"

text \<open>
  What a caller may pass where an optimizer is expected: an \<open>Optimizer\<close> instance, or
  an object of some other type (given by its type name).
\<close>

datatype optimizer_arg = IsOptimizer optimizer | NotOptimizer string

text \<open>A per-group learning-rate argument: a float, a list or a tuple.\<close>

datatype lr_arg = Scalar real | ListArg "real list" | TupleArg "real list"

text \<open>\<open>"expected {} values for {}, got {}".format(expected, name, got)\<close>\<close>

definition expected_values_msg :: "nat \<Rightarrow> string \<Rightarrow> nat \<Rightarrow> string" where
  "expected_values_msg expected name got =
     ''expected '' @ str_nat expected @ '' values for '' @ name @ '', got '' @ str_nat got"

section \<open>CyclicLR (skorch/callbacks/lr\_scheduler.py)\<close>

text \<open>
  The scaling function stored in \<open>self.scale_fn\<close>: one of the three bound methods, or
  the callable the user passed.
\<close>

datatype scale_fn =
    TriangularScaleFn
  | Triangular2ScaleFn
  | ExpRangeScaleFn
  | CustomScaleFn "real \<Rightarrow> real"

record cyclic_lr =
  optimizer :: optimizer
  base_lrs :: "real list"
  max_lrs :: "real list"
  step_size :: int
  mode :: string
  gamma :: real
  scale_fn :: scale_fn
  scale_mode :: string
  last_batch_idx :: int

text \<open>\<open>CyclicLR._format_lr\<close>\<close>

definition CyclicLR_format_lr :: "string \<Rightarrow> optimizer \<Rightarrow> lr_arg \<Rightarrow> py_error + real list" where
  "CyclicLR_format_lr name opt lr_in =
     (let n = length (param_groups opt);
          check = (\<lambda>xs. if length xs \<noteq> n
                         then Inl (ValueError (expected_values_msg n name (length xs)))
                         else Inr xs)
      in case lr_in of
           ListArg xs \<Rightarrow> check xs
         | TupleArg xs \<Rightarrow> check xs
         | Scalar v \<Rightarrow> Inr (map (\<lambda>one. v * one) (replicate n 1)))"

text \<open>
  The three built-in scaling functions. Their argument is the cycle number (the result
  of \<open>np.floor\<close>, an integral float) or the batch index (an int), so it is an \<open>int\<close>
  here. \<open>gamma ** x\<close> on a Python float and an int raises ZeroDivisionError for
  \<open>0.0\<close> to a negative power, and OverflowError when the power is too large for a
  float (\<open>2.0 ** 1024\<close>): a result overflows when rounding it to the nearest double
  gives infinity, that is, when its magnitude is at least \<open>2 ^ 1024 - 2 ^ 970\<close>, half
  a unit in the last place above the largest finite double. The other arithmetic of
  \<open>get_lr\<close> is on numpy floats or does not raise. The constructor pairs
  \<open>_exp_range_scale_fn\<close> with the batch index only.
\<close>

definition triangular_scale_fn :: "int \<Rightarrow> real" where
  "triangular_scale_fn x = 1"

definition triangular2_scale_fn :: "int \<Rightarrow> real" where
  "triangular2_scale_fn x = 1 / (2 powi (x - 1))"

definition overflows :: "real \<Rightarrow> bool" where
  "overflows v \<longleftrightarrow> \<bar>v\<bar> \<ge> 2 ^ 1024 - 2 ^ 970"

definition exp_range_scale_fn :: "real \<Rightarrow> int \<Rightarrow> py_error + real" where
  "exp_range_scale_fn g x =
     (if g = 0 \<and> x < 0 then Inl ZeroDivisionError
      else if overflows (g powi x) then Inl OverflowError
      else Inr (g powi x))"

text \<open>The call \<open>self.scale_fn(x)\<close>.\<close>

definition call_scale_fn :: "cyclic_lr \<Rightarrow> int \<Rightarrow> py_error + real" where
  "call_scale_fn s x =
     (case scale_fn s of
        TriangularScaleFn \<Rightarrow> Inr (triangular_scale_fn x)
      | Triangular2ScaleFn \<Rightarrow> Inr (triangular2_scale_fn x)
      | ExpRangeScaleFn \<Rightarrow> exp_range_scale_fn (gamma s) x
      | CustomScaleFn f \<Rightarrow> Inr (f (of_int x)))"

text \<open>
  The loop of \<open>CyclicLR.get_lr\<close> over \<open>zip(self.base_lrs, self.max_lrs)\<close>: the scaling
  function is called once per group, so it cannot raise when there is no group.
\<close>

fun CyclicLR_get_lr_loop ::
  "cyclic_lr \<Rightarrow> int \<Rightarrow> real \<Rightarrow> (real \<times> real) list \<Rightarrow> py_error + real list" where
  "CyclicLR_get_lr_loop s cycle x [] = Inr []"
| "CyclicLR_get_lr_loop s cycle x ((base_lr, max_lr) # rest) =
     (let base_height = (max_lr - base_lr) * max 0 (1 - x) in
      case (if scale_mode s = ''cycle'' then call_scale_fn s cycle
            else call_scale_fn s (last_batch_idx s)) of
        Inl e \<Rightarrow> Inl e
      | Inr sc \<Rightarrow>
          (case CyclicLR_get_lr_loop s cycle x rest of
             Inl e \<Rightarrow> Inl e
           | Inr lrs \<Rightarrow> Inr ((base_lr + base_height * sc) # lrs)))"

text \<open>
  The position inside the triangular wave: the cycle number and the distance \<open>x\<close> from
  the peak of the cycle, as \<open>get_lr\<close> computes them (for a non-zero step size).
\<close>

definition cycle_of :: "int \<Rightarrow> int \<Rightarrow> int" where
  "cycle_of step idx = \<lfloor>1 + real_of_int idx / (2 * real_of_int step)\<rfloor>"

definition x_of :: "int \<Rightarrow> int \<Rightarrow> real" where
  "x_of step idx =
     \<bar>real_of_int idx / real_of_int step - 2 * real_of_int (cycle_of step idx) + 1\<bar>"

text \<open>
  \<open>CyclicLR.get_lr\<close>. \<open>step_size\<close> is converted to a Python float, and dividing by the
  float zero raises ZeroDivisionError.
\<close>

definition CyclicLR_get_lr :: "cyclic_lr \<Rightarrow> py_error + real list" where
  "CyclicLR_get_lr s =
     (if step_size s = 0 then Inl ZeroDivisionError
      else
        let cycle = cycle_of (step_size s) (last_batch_idx s);
            x = x_of (step_size s) (last_batch_idx s)
        in CyclicLR_get_lr_loop s cycle x (zip (base_lrs s) (max_lrs s)))"

text \<open>
  \<open>for param_group, lr in zip(param_groups, lrs): param_group['lr'] = lr\<close>: the groups
  beyond the shorter list keep their learning rate.
\<close>

fun assign_lrs :: "param_group list \<Rightarrow> real list \<Rightarrow> param_group list" where
  "assign_lrs (g # gs) (v # vs) = g\<lparr>lr := v\<rparr> # assign_lrs gs vs"
| "assign_lrs gs [] = gs"
| "assign_lrs [] vs = []"

text \<open>
  \<open>CyclicLR.batch_step\<close>. The batch index is stored before \<open>get_lr\<close> runs, so it stays
  stored when \<open>get_lr\<close> raises: the result is the scheduler after the call together with
  the exception, if any.
\<close>

definition CyclicLR_batch_step :: "cyclic_lr \<Rightarrow> int option \<Rightarrow> cyclic_lr \<times> py_error option" where
  "CyclicLR_batch_step s batch_idx =
     (let idx = (case batch_idx of None \<Rightarrow> last_batch_idx s + 1 | Some i \<Rightarrow> i);
          s1 = s\<lparr>last_batch_idx := idx\<rparr>
      in case CyclicLR_get_lr s1 of
           Inl e \<Rightarrow> (s1, Some e)
         | Inr lrs \<Rightarrow>
             (s1\<lparr>optimizer :=
                   (optimizer s1)\<lparr>param_groups := assign_lrs (param_groups (optimizer s1)) lrs\<rparr>\<rparr>,
              None))"

text \<open>\<open>CyclicLR.step\<close>: the body is \<open>pass\<close>, whatever the argument.\<close>

definition CyclicLR_step :: "cyclic_lr \<Rightarrow> 'e \<Rightarrow> cyclic_lr" where
  "CyclicLR_step s epoch = s"

text \<open>
  \<open>CyclicLR.__init__\<close>. The optimizer is shared with the caller: the optimizer of the
  returned scheduler is the caller's optimizer after the constructor has run. After
  the check of \<open>mode\<close>, the last branch of the \<open>if/elif\<close> chain is reached for
  \<open>'exp_range'\<close> only. The attribute \<open>last_batch_idx\<close> does not exist before
  \<open>batch_step\<close> assigns it; the record built here holds the value \<open>batch_step\<close> is
  about to store. When \<open>batch_step\<close> raises, no scheduler is returned and the optimizer
  has not been written.
\<close>

definition CyclicLR_init ::
  "optimizer_arg \<Rightarrow> lr_arg \<Rightarrow> lr_arg \<Rightarrow> int \<Rightarrow> string \<Rightarrow> real \<Rightarrow> (real \<Rightarrow> real) option \<Rightarrow> string
     \<Rightarrow> int \<Rightarrow> py_error + cyclic_lr" where
  "CyclicLR_init opt_arg base_lr max_lr step_size_arg mode_arg gamma_arg scale_fn_arg
       scale_mode_arg last_batch_idx_arg =
     (case opt_arg of
        NotOptimizer type_name \<Rightarrow> Inl (TypeError (type_name @ '' is not an Optimizer''))
      | IsOptimizer opt \<Rightarrow>
     (case CyclicLR_format_lr ''base_lr'' opt base_lr of
        Inl e \<Rightarrow> Inl e
      | Inr bases \<Rightarrow>
     (case CyclicLR_format_lr ''max_lr'' opt max_lr of
        Inl e \<Rightarrow> Inl e
      | Inr maxes \<Rightarrow>
     if mode_arg \<notin> set [''triangular'', ''triangular2'', ''exp_range''] \<and> scale_fn_arg = None
     then Inl (ValueError ''mode is invalid and scale_fn is None'')
     else
       let (fn, sm) =
             (case scale_fn_arg of
                None \<Rightarrow>
                  if mode_arg = ''triangular'' then (TriangularScaleFn, ''cycle'')
                  else if mode_arg = ''triangular2'' then (Triangular2ScaleFn, ''cycle'')
                  else (ExpRangeScaleFn, ''iterations'')
              | Some f \<Rightarrow> (CustomScaleFn f, scale_mode_arg));
           s0 = \<lparr>optimizer = opt, base_lrs = bases, max_lrs = maxes,
                 step_size = step_size_arg, mode = mode_arg, gamma = gamma_arg,
                 scale_fn = fn, scale_mode = sm, last_batch_idx = last_batch_idx_arg + 1\<rparr>
       in (case CyclicLR_batch_step s0 (Some (last_batch_idx_arg + 1)) of
             (s1, Some e) \<Rightarrow> Inl e
           | (s1, None) \<Rightarrow> Inr (s1\<lparr>last_batch_idx := last_batch_idx_arg\<rparr>)))))"

section \<open>WarmRestartLR (skorch/callbacks/lr\_scheduler.py)\<close>

text \<open>
  The fields of a \<open>WarmRestartLR\<close> object that its own code reads. \<open>min_lr\<close> and
  \<open>max_lr\<close> are numpy arrays with one entry per parameter group; \<open>last_epoch\<close> is
  stored by the inherited constructor and by \<open>step\<close> of torch's \<open>_LRScheduler\<close>, which
  are library code outside this repository.
\<close>

record warm_restart_lr =
  min_lr :: "real list"
  max_lr :: "real list"
  base_period :: real
  period_mult :: real
  last_epoch :: int

text \<open>\<open>WarmRestartLR._format_lr\<close> (the same text as \<open>CyclicLR._format_lr\<close>).\<close>

definition WarmRestartLR_format_lr :: "string \<Rightarrow> optimizer \<Rightarrow> lr_arg \<Rightarrow> py_error + real list" where
  "WarmRestartLR_format_lr name opt lr_in =
     (let n = length (param_groups opt);
          check = (\<lambda>xs. if length xs \<noteq> n
                         then Inl (ValueError (expected_values_msg n name (length xs)))
                         else Inr xs)
      in case lr_in of
           ListArg xs \<Rightarrow> check xs
         | TupleArg xs \<Rightarrow> check xs
         | Scalar v \<Rightarrow> Inr (map (\<lambda>one. v * one) (replicate n 1)))"

text \<open>
  \<open>WarmRestartLR.__init__\<close>, up to the call of the inherited constructor: the two
  per-group arguments are formatted in this order, so the first mismatch is the one
  reported.
\<close>

definition WarmRestartLR_init ::
  "optimizer \<Rightarrow> lr_arg \<Rightarrow> lr_arg \<Rightarrow> real \<Rightarrow> real \<Rightarrow> int \<Rightarrow> py_error + warm_restart_lr" where
  "WarmRestartLR_init opt min_lr_arg max_lr_arg base_period_arg period_mult_arg last_epoch_arg =
     (case WarmRestartLR_format_lr ''min_lr'' opt min_lr_arg of
        Inl e \<Rightarrow> Inl e
      | Inr mins \<Rightarrow>
     (case WarmRestartLR_format_lr ''max_lr'' opt max_lr_arg of
        Inl e \<Rightarrow> Inl e
      | Inr maxes \<Rightarrow>
          Inr \<lparr>min_lr = mins, max_lr = maxes, base_period = base_period_arg,
               period_mult = period_mult_arg, last_epoch = last_epoch_arg\<rparr>))"

text \<open>
  An elementwise operation of two one-dimensional numpy arrays: arrays of one length are
  combined entry by entry, an array of length one is broadcast, and any other pair of
  lengths raises ValueError.
\<close>

definition np_elementwise ::
  "(real \<Rightarrow> real \<Rightarrow> real) \<Rightarrow> real list \<Rightarrow> real list \<Rightarrow> py_error + real list" where
  "np_elementwise f xs ys =
     (if length xs = length ys then Inr (map (\<lambda>(x, y). f x y) (zip xs ys))
      else if length xs = 1 then Inr (map (\<lambda>y. f (hd xs) y) ys)
      else if length ys = 1 then Inr (map (\<lambda>x. f x (hd ys)) xs)
      else Inl (ValueError (''operands could not be broadcast together with shapes (''
             @ str_nat (length xs) @ '',) ('' @ str_nat (length ys) @ '',) '')))"

text \<open>\<open>WarmRestartLR._get_current_lr\<close>, on the arrays \<open>min_lr\<close> and \<open>max_lr\<close>.\<close>

definition WarmRestartLR_get_current_lr ::
  "real list \<Rightarrow> real list \<Rightarrow> real \<Rightarrow> real \<Rightarrow> py_error + real list" where
  "WarmRestartLR_get_current_lr mins maxes period epoch =
     (case np_elementwise (\<lambda>mx mn. mx - mn) maxes mins of
        Inl e \<Rightarrow> Inl e
      | Inr amplitudes \<Rightarrow>
          np_elementwise (\<lambda>mn d. mn + 0.5 * d * (1 + cos (epoch * pi / period))) mins amplitudes)"

text \<open>
  The \<open>while\<close> loop of \<open>WarmRestartLR.get_lr\<close>. Both operands of the division are
  Python floats, so a period of zero raises ZeroDivisionError. The loop need not
  terminate (a period of \<open>-1\<close> with multiplier 1 and a negative index never changes), so
  the result is an option: \<open>None\<close> when the loop runs forever.
\<close>

partial_function (option) restart_loop ::
  "real \<Rightarrow> real \<Rightarrow> real \<Rightarrow> (py_error + real \<times> real) option" where
  "restart_loop mult epoch_idx current_period =
     (if current_period = 0 then Some (Inl ZeroDivisionError)
      else if epoch_idx / current_period > 1
        then restart_loop mult (epoch_idx - (current_period + 1)) (current_period * mult)
        else Some (Inr (epoch_idx, current_period)))"

text \<open>\<open>WarmRestartLR.get_lr\<close>\<close>

definition WarmRestartLR_get_lr :: "warm_restart_lr \<Rightarrow> (py_error + real list) option" where
  "WarmRestartLR_get_lr w =
     (case restart_loop (period_mult w) (real_of_int (last_epoch w)) (base_period w) of
        None \<Rightarrow> None
      | Some (Inl e) \<Rightarrow> Some (Inl e)
      | Some (Inr (epoch_idx, current_period)) \<Rightarrow>
          Some (WarmRestartLR_get_current_lr (min_lr w) (max_lr w) current_period epoch_idx))"

text \<open>
  The schedule as the specification words it, to be compared with \<open>get_lr\<close>: start from
  the index and the base period; while the index divided by the period exceeds 1,
  subtract the period plus one from the index and multiply the period by the
  multiplier; then follow a half cosine from the maximum to the minimum.
\<close>

definition spec_restart_state :: "real \<Rightarrow> real \<Rightarrow> real \<Rightarrow> (real \<times> real) option" where
  "spec_restart_state mult idx period =
     while_option (\<lambda>(e, P). e / P > 1) (\<lambda>(e, P). (e - (P + 1), P * mult)) (idx, period)"

definition spec_half_cosine :: "real \<Rightarrow> real \<Rightarrow> real \<Rightarrow> real \<Rightarrow> real" where
  "spec_half_cosine mn mx e P = mn + 0.5 * (mx - mn) * (1 + cos (e * pi / P))"

section \<open>The exp\_range schedule as the specification words it\<close>

text \<open>
  The learning rates the specification gives for \<open>exp_range\<close>: base plus the triangular
  height, scaled by \<open>gamma\<close> raised to the current cycle number.
\<close>

definition spec_exp_range_lrs :: "cyclic_lr \<Rightarrow> real list" where
  "spec_exp_range_lrs s =
     map (\<lambda>(b, m). b + (m - b) * max 0 (1 - x_of (step_size s) (last_batch_idx s))
                       * gamma s powi cycle_of (step_size s) (last_batch_idx s))
         (zip (base_lrs s) (max_lrs s))"

section \<open>BernoulliLikelihood (gpytorch/likelihoods/bernoulli\_likelihood.py)\<close>

text \<open>\<open>sep.join(parts)\<close>\<close>

fun str_join :: "string \<Rightarrow> string list \<Rightarrow> string" where
  "str_join sep [] = []"
| "str_join sep [x] = x"
| "str_join sep (x # y # ys) = x @ sep @ str_join sep (y # ys)"

text \<open>
  The argument of \<open>forward\<close>: a \<open>GaussianRandomVariable\<close>, seen through what
  \<open>mean()\<close> and \<open>var()\<close> return (vectors of one length), or an object of another type.
  The result is a \<open>BernoulliRandomVariable\<close> holding its probabilities. The classes
  themselves (gpytorch/random\_variables) are not among the sources.
\<close>

datatype latent = GaussianRandomVariable "real list" "real list" | NotGaussian string

datatype bernoulli = BernoulliRandomVariable "real list"

text \<open>
  \<open>BernoulliLikelihood.forward\<close>. \<open>normal_cdf\<close> (gpytorch/functions, not among the
  sources) maps a tensor to a tensor and is a parameter.
\<close>

definition BernoulliLikelihood_forward ::
  "(real list \<Rightarrow> real list) \<Rightarrow> latent \<Rightarrow> py_error + bernoulli" where
  "BernoulliLikelihood_forward normal_cdf input =
     (case input of
        NotGaussian type_name \<Rightarrow>
          Inl (RuntimeError (str_join '' '' [''BernoulliLikelihood expects a Gaussian'',
                 ''distributed latent function to make predictions'']))
      | GaussianRandomVariable mean var \<Rightarrow>
          let link = map (\<lambda>(m, d). m / d) (zip mean (map (\<lambda>v. sqrt (1 + v)) var));
              output_probs = normal_cdf link
          in Inr (BernoulliRandomVariable output_probs))"

section \<open>NeuralNet (skorch/net.py), from the specification\<close>

text \<open>
  Modelled from the spec: \<open>NeuralNet.__init__\<close> (skorch/net.py is not among the
  sources; only its tests are). Unknown top-level constructor keywords give one
  aggregated TypeError listing every unrecognized name. Which names are recognized is a
  parameter; the wording of the message is the one the tests expect.
\<close>

definition unexpected_arguments_msg :: "string list \<Rightarrow> string" where
  "unexpected_arguments_msg names =
     ''__init__() got unexpected argument(s) '' @ str_join '', '' names @ ''.''
     @ ''Either you made a typo, or you added new arguments ''
     @ ''in a subclass; if that is the case, the subclass ''
     @ ''should deal with the new arguments explicitely.''"

definition NeuralNet_init :: "(string \<Rightarrow> bool) \<Rightarrow> (string \<times> 'v) list \<Rightarrow> py_error + (string \<times> 'v) list" where
  "NeuralNet_init recognized kwargs =
     (let unexpected = filter (\<lambda>key. \<not> recognized key) (map fst kwargs)
      in if unexpected \<noteq> [] then Inl (TypeError (unexpected_arguments_msg unexpected))
         else Inr kwargs)"

text \<open>
  Modelled from the spec: \<open>NeuralNet.save_params\<close> and \<open>NeuralNet.load_params\<close>
  (skorch/net.py is not among the sources). A net must be initialized before its
  parameters can be saved or loaded; otherwise an explicit "not initialized" error is
  raised, with the wording the tests expect. The files are a map from paths to stored
  parameters; each function returns the files or the net after the call, and the
  exception if one was raised.
\<close>

record 'p neural_net =
  initialized :: bool
  module_params :: 'p

definition not_initialized_msg :: "string \<Rightarrow> string" where
  "not_initialized_msg verb =
     ''Cannot '' @ verb @ '' parameters of an un-initialized model. ''
     @ ''Please initialize first by calling .initialize() ''
     @ ''or by fitting the model with .fit(...).''"

definition save_params :: "'p neural_net \<Rightarrow> (string \<rightharpoonup> 'p) \<Rightarrow> string \<Rightarrow> (string \<rightharpoonup> 'p) \<times> py_error option" where
  "save_params net files path =
     (if \<not> initialized net then (files, Some (NotInitializedError (not_initialized_msg ''save'')))
      else (files(path \<mapsto> module_params net), None))"

definition load_params :: "'p neural_net \<Rightarrow> (string \<rightharpoonup> 'p) \<Rightarrow> string \<Rightarrow> 'p neural_net \<times> py_error option" where
  "load_params net files path =
     (if \<not> initialized net then (net, Some (NotInitializedError (not_initialized_msg ''load'')))
      else case files path of
             None \<Rightarrow> (net, Some (FileNotFoundError path))
           | Some stored \<Rightarrow> (net\<lparr>module_params := stored\<rparr>, None))"

section \<open>Facts about CyclicLR\<close>

lemma CyclicLR_format_lr_length:
  "CyclicLR_format_lr name opt a = Inr xs \<Longrightarrow> length xs = length (param_groups opt)"
  by (auto simp: CyclicLR_format_lr_def Let_def split: lr_arg.splits if_splits)

lemma call_scale_fn_optimizer [simp]:
  "call_scale_fn (s\<lparr>optimizer := opt\<rparr>) x = call_scale_fn s x"
  by (simp add: call_scale_fn_def split: scale_fn.splits)

lemma get_lr_loop_optimizer [simp]:
  "CyclicLR_get_lr_loop (s\<lparr>optimizer := opt\<rparr>) c x ps = CyclicLR_get_lr_loop s c x ps"
  by (induction ps) (auto simp: Let_def split: sum.splits)

lemma get_lr_optimizer [simp]:
  "CyclicLR_get_lr (s\<lparr>optimizer := opt\<rparr>) = CyclicLR_get_lr s"
  by (simp add: CyclicLR_get_lr_def)




lemma call_scale_fn_cong:
  "scale_fn s = scale_fn s' \<Longrightarrow> gamma s = gamma s' \<Longrightarrow> call_scale_fn s x = call_scale_fn s' x"
  by (simp add: call_scale_fn_def split: scale_fn.splits)

lemma get_lr_loop_cong:
  assumes "scale_fn s = scale_fn s'" "gamma s = gamma s'" "scale_mode s = scale_mode s'"
    "last_batch_idx s = last_batch_idx s'"
  shows "CyclicLR_get_lr_loop s c x ps = CyclicLR_get_lr_loop s' c x ps"
proof (induction ps)
  case Nil
  show ?case by simp
next
  case (Cons p ps)
  obtain b m where p: "p = (b, m)" by (cases p)
  show ?case
    using Cons.IH assms call_scale_fn_cong [OF assms(1,2)] by (simp add: p split: sum.splits)
qed

lemma get_lr_cong:
  assumes "base_lrs s = base_lrs s'" "max_lrs s = max_lrs s'" "step_size s = step_size s'"
    "scale_fn s = scale_fn s'" "gamma s = gamma s'" "scale_mode s = scale_mode s'"
    "last_batch_idx s = last_batch_idx s'"
  shows "CyclicLR_get_lr s = CyclicLR_get_lr s'"
  using assms get_lr_loop_cong [OF assms(4,5,6,7)] by (simp add: CyclicLR_get_lr_def)

lemma batch_step_None:
  assumes "CyclicLR_batch_step s (Some i) = (s1, None)"
  shows "\<exists>lrs. CyclicLR_get_lr (s\<lparr>last_batch_idx := i\<rparr>) = Inr lrs
           \<and> s1 = s\<lparr>last_batch_idx := i,
                     optimizer := (optimizer s)\<lparr>param_groups := assign_lrs (param_groups (optimizer s)) lrs\<rparr>\<rparr>"
  using assms by (auto simp: CyclicLR_batch_step_def Let_def split: sum.splits)

lemma CyclicLR_init_Inr:
  assumes "CyclicLR_init oa b m step md g fa sm l = Inr s"
  shows "\<exists>opt lrs.
           oa = IsOptimizer opt
         \<and> CyclicLR_format_lr ''base_lr'' opt b = Inr (base_lrs s)
         \<and> CyclicLR_format_lr ''max_lr'' opt m = Inr (max_lrs s)
         \<and> step_size s = step \<and> mode s = md \<and> gamma s = g \<and> last_batch_idx s = l
         \<and> (case fa of
               None \<Rightarrow>
                 (md = ''triangular'' \<and> scale_fn s = TriangularScaleFn \<and> scale_mode s = ''cycle'')
               \<or> (md = ''triangular2'' \<and> scale_fn s = Triangular2ScaleFn \<and> scale_mode s = ''cycle'')
               \<or> (md = ''exp_range'' \<and> scale_fn s = ExpRangeScaleFn \<and> scale_mode s = ''iterations'')
             | Some f \<Rightarrow> scale_fn s = CustomScaleFn f \<and> scale_mode s = sm)
         \<and> CyclicLR_get_lr (s\<lparr>last_batch_idx := l + 1\<rparr>) = Inr lrs
         \<and> optimizer s = opt\<lparr>param_groups := assign_lrs (param_groups opt) lrs\<rparr>"
proof -
  from assms obtain opt where oa: "oa = IsOptimizer opt"
    by (cases oa) (simp_all add: CyclicLR_init_def)
  from assms oa obtain bases where bases: "CyclicLR_format_lr ''base_lr'' opt b = Inr bases"
    by (cases "CyclicLR_format_lr ''base_lr'' opt b") (simp_all add: CyclicLR_init_def)
  from assms oa bases obtain maxes where maxes: "CyclicLR_format_lr ''max_lr'' opt m = Inr maxes"
    by (cases "CyclicLR_format_lr ''max_lr'' opt m") (simp_all add: CyclicLR_init_def)
  define fs where "fs =
     (case fa of
        None \<Rightarrow>
          if md = ''triangular'' then (TriangularScaleFn, ''cycle'')
          else if md = ''triangular2'' then (Triangular2ScaleFn, ''cycle'')
          else (ExpRangeScaleFn, ''iterations'')
      | Some f \<Rightarrow> (CustomScaleFn f, sm))"
  define s0 where "s0 = \<lparr>optimizer = opt, base_lrs = bases, max_lrs = maxes,
                 step_size = step, mode = md, gamma = g,
                 scale_fn = fst fs, scale_mode = snd fs, last_batch_idx = l + 1\<rparr>"
  have valid: "\<not> (md \<notin> set [''triangular'', ''triangular2'', ''exp_range''] \<and> fa = None)"
    using assms oa bases maxes by (auto simp: CyclicLR_init_def split: if_splits)
  have "CyclicLR_init oa b m step md g fa sm l =
          (case CyclicLR_batch_step s0 (Some (l + 1)) of
               (s1, Some e) \<Rightarrow> Inl e
             | (s1, None) \<Rightarrow> Inr (s1\<lparr>last_batch_idx := l\<rparr>))"
    using valid
    by (auto simp: CyclicLR_init_def oa bases maxes Let_def case_prod_beta s0_def simp flip: fs_def)
  then have run: "(case CyclicLR_batch_step s0 (Some (l + 1)) of
               (s1, Some e) \<Rightarrow> Inl e
             | (s1, None) \<Rightarrow> Inr (s1\<lparr>last_batch_idx := l\<rparr>)) = Inr s"
    using assms by simp
  obtain s1 where s1: "CyclicLR_batch_step s0 (Some (l + 1)) = (s1, None)"
    and s: "s = s1\<lparr>last_batch_idx := l\<rparr>"
    using run by (cases "CyclicLR_batch_step s0 (Some (l + 1))") (auto split: option.splits)
  from batch_step_None [OF s1] obtain lrs where
    lrs: "CyclicLR_get_lr (s0\<lparr>last_batch_idx := l + 1\<rparr>) = Inr lrs" and
    s1': "s1 = s0\<lparr>last_batch_idx := l + 1,
                 optimizer := (optimizer s0)\<lparr>param_groups := assign_lrs (param_groups (optimizer s0)) lrs\<rparr>\<rparr>"
    by blast
  have "CyclicLR_get_lr (s\<lparr>last_batch_idx := l + 1\<rparr>) = CyclicLR_get_lr (s0\<lparr>last_batch_idx := l + 1\<rparr>)"
    by (rule get_lr_cong) (simp_all add: s s1')
  then have g: "CyclicLR_get_lr (s\<lparr>last_batch_idx := l + 1\<rparr>) = Inr lrs"
    using lrs by simp
  have fields: "base_lrs s = bases" "max_lrs s = maxes" "step_size s = step" "mode s = md"
    "gamma s = g" "last_batch_idx s = l" "scale_fn s = fst fs" "scale_mode s = snd fs"
    "optimizer s = opt\<lparr>param_groups := assign_lrs (param_groups opt) lrs\<rparr>"
    by (simp_all add: s s1' s0_def)
  have sel: "(case fa of
               None \<Rightarrow>
                 (md = ''triangular'' \<and> scale_fn s = TriangularScaleFn \<and> scale_mode s = ''cycle'')
               \<or> (md = ''triangular2'' \<and> scale_fn s = Triangular2ScaleFn \<and> scale_mode s = ''cycle'')
               \<or> (md = ''exp_range'' \<and> scale_fn s = ExpRangeScaleFn \<and> scale_mode s = ''iterations'')
             | Some f \<Rightarrow> scale_fn s = CustomScaleFn f \<and> scale_mode s = sm)"
    using valid by (auto simp: fields fs_def split: option.splits)
  show ?thesis
    using oa bases maxes g sel fields by auto
qed



lemma length_assign_lrs [simp]: "length (assign_lrs gs vs) = length gs"
  by (induction gs vs rule: assign_lrs.induct) simp_all

lemma overflow_threshold_gt_one: "(1::real) < 2 ^ 1024 - 2 ^ 970"
proof -
  have "(2::real) ^ 1024 = 2 ^ 970 * 2 ^ 54" by (simp flip: power_add)
  then have eq: "(2::real) ^ 1024 - 2 ^ 970 = 2 ^ 970 * (2 ^ 54 - 1)" by (simp add: algebra_simps)
  have a: "(1::real) \<le> 2 ^ 970" by (rule one_le_power) simp
  have b: "(1::real) < 2 ^ 54 - 1" by simp
  have "(1::real) * 1 < 2 ^ 970 * (2 ^ 54 - 1)"
    by (rule mult_le_less_imp_less [OF a b]) simp_all
  then show ?thesis unfolding eq by simp
qed

lemma not_overflows_le_one: "\<bar>v\<bar> \<le> 1 \<Longrightarrow> \<not> overflows v"
  using overflow_threshold_gt_one unfolding overflows_def by linarith


lemma abs_powi_le_one: "\<bar>g\<bar> \<le> 1 \<Longrightarrow> 0 \<le> i \<Longrightarrow> \<bar>g powi i\<bar> \<le> (1::real)"
  by (simp add: power_int_def power_abs power_le_one)

lemma exp_range_scale_fn_defined:
  "g \<noteq> 0 \<or> 0 \<le> x \<Longrightarrow> \<not> overflows (g powi x) \<Longrightarrow> exp_range_scale_fn g x = Inr (g powi x)"
  by (auto simp: exp_range_scale_fn_def)

lemma exp_range_scale_fn_decay:
  "\<bar>g\<bar> \<le> 1 \<Longrightarrow> 0 \<le> x \<Longrightarrow> exp_range_scale_fn g x = Inr (g powi x)"
  by (simp add: exp_range_scale_fn_defined not_overflows_le_one abs_powi_le_one)


lemma call_scale_fn_not_exp_range_ok:
  "scale_fn s \<noteq> ExpRangeScaleFn \<Longrightarrow> call_scale_fn s x \<noteq> Inl e"
  by (auto simp: call_scale_fn_def split: scale_fn.splits)


lemma get_lr_loop_scaled:
  assumes "(if scale_mode s = ''cycle'' then call_scale_fn s c
            else call_scale_fn s (last_batch_idx s)) = Inr sc"
  shows "CyclicLR_get_lr_loop s c x ps = Inr (map (\<lambda>(b, m). b + (m - b) * max 0 (1 - x) * sc) ps)"
proof (induction ps)
  case Nil
  show ?case by simp
next
  case (Cons p ps)
  obtain b m where p: "p = (b, m)" by (cases p)
  show ?case using Cons.IH assms by (simp add: p)
qed

lemma get_lr_loop_length:
  "CyclicLR_get_lr_loop s c x ps = Inr lrs \<Longrightarrow> length lrs = length ps"
proof (induction ps arbitrary: lrs)
  case Nil
  then show ?case by simp
next
  case (Cons p ps)
  obtain b m where p: "p = (b, m)" by (cases p)
  from Cons.prems obtain rest where "CyclicLR_get_lr_loop s c x ps = Inr rest" "length lrs = Suc (length rest)"
    by (auto simp: p Let_def split: sum.splits if_splits)
  then show ?case using Cons.IH by simp
qed

lemma CyclicLR_get_lr_length:
  "CyclicLR_get_lr s = Inr lrs \<Longrightarrow> length lrs = min (length (base_lrs s)) (length (max_lrs s))"
  by (auto simp: CyclicLR_get_lr_def Let_def dest: get_lr_loop_length split: if_splits)

lemma map_lr_assign_lrs:
  "length vs = length gs \<Longrightarrow> map lr (assign_lrs gs vs) = vs"
  by (induction gs vs rule: assign_lrs.induct) simp_all

lemma get_lr_loop_at_peak_distance_one_result:
  "CyclicLR_get_lr_loop s c 1 ps = Inr lrs \<Longrightarrow> lrs = map fst ps"
proof (induction ps arbitrary: lrs)
  case Nil
  then show ?case by simp
next
  case (Cons p ps)
  obtain b m where p: "p = (b, m)" by (cases p)
  from Cons.prems obtain sc rest where
    "CyclicLR_get_lr_loop s c 1 ps = Inr rest" "lrs = (b + (m - b) * max 0 (1 - 1) * sc) # rest"
    by (auto simp: p Let_def split: sum.splits if_splits)
  then show ?case using Cons.IH by (simp add: p)
qed

lemma cycle_of_zero: "step \<noteq> 0 \<Longrightarrow> cycle_of step 0 = 1"
  by (simp add: cycle_of_def)

lemma x_of_zero: "step \<noteq> 0 \<Longrightarrow> x_of step 0 = 1"
  by (simp add: x_of_def cycle_of_zero)

section \<open>C1: the cyclic schedule is back at its base at multiples of twice the step size\<close>




section \<open>C3: the exp\_range amplitude decays with the batch index\<close>

text \<open>
  The statement of C3 as written fails. With one group, base 0, maximum 1, step size 1
  and \<open>gamma = 1/2\<close>, batch index 3 lies at the peak of cycle 2 (\<open>x = 0\<close>): the
  code returns \<open>(1/2) ** 3 = 1/8\<close>, while scaling by \<open>gamma\<close> to the cycle number
  would give \<open>(1/2) ** 2 = 1/4\<close>.
\<close>

theorem exp_range_scales_by_cycle_counterexample:
  "CyclicLR_init (IsOptimizer \<lparr>param_groups = [\<lparr>lr = 1/10\<rparr>]\<rparr>)
       (Scalar 0) (Scalar 1) 1 ''exp_range'' (1/2) None ''cycle'' 2
     = Inr \<lparr>optimizer = \<lparr>param_groups = [\<lparr>lr = 1/8\<rparr>]\<rparr>,
            base_lrs = [0], max_lrs = [1], step_size = 1,
            mode = ''exp_range'', gamma = 1/2, scale_fn = ExpRangeScaleFn,
            scale_mode = ''iterations'', last_batch_idx = 2\<rparr>
   \<and> CyclicLR_get_lr \<lparr>optimizer = \<lparr>param_groups = [\<lparr>lr = 1/8\<rparr>]\<rparr>,
            base_lrs = [0], max_lrs = [1], step_size = 1,
            mode = ''exp_range'', gamma = 1/2, scale_fn = ExpRangeScaleFn,
            scale_mode = ''iterations'', last_batch_idx = 3\<rparr> = Inr [1/8]
   \<and> spec_exp_range_lrs \<lparr>optimizer = \<lparr>param_groups = [\<lparr>lr = 1/8\<rparr>]\<rparr>,
            base_lrs = [0], max_lrs = [1], step_size = 1,
            mode = ''exp_range'', gamma = 1/2, scale_fn = ExpRangeScaleFn,
            scale_mode = ''iterations'', last_batch_idx = 3\<rparr> = [1/4]
   \<and> CyclicLR_get_lr \<lparr>optimizer = \<lparr>param_groups = [\<lparr>lr = 1/8\<rparr>]\<rparr>,
            base_lrs = [0], max_lrs = [1], step_size = 1,
            mode = ''exp_range'', gamma = 1/2, scale_fn = ExpRangeScaleFn,
            scale_mode = ''iterations'', last_batch_idx = 3\<rparr>
       \<noteq> Inr (spec_exp_range_lrs \<lparr>optimizer = \<lparr>param_groups = [\<lparr>lr = 1/8\<rparr>]\<rparr>,
            base_lrs = [0], max_lrs = [1], step_size = 1,
            mode = ''exp_range'', gamma = 1/2, scale_fn = ExpRangeScaleFn,
            scale_mode = ''iterations'', last_batch_idx = 3\<rparr>)"
  by (simp add: CyclicLR_init_def CyclicLR_format_lr_def CyclicLR_batch_step_def
        CyclicLR_get_lr_def cycle_of_def x_of_def call_scale_fn_def exp_range_scale_fn_decay
        spec_exp_range_lrs_def power_int_def eval_nat_numeral)

text \<open>
  C3 (amended). In \<open>exp_range\<close> mode the constructor selects the scale mode
  \<open>'iterations'\<close>, so the scaling function receives the batch index: for every batch
  index \<open>i\<close> at which \<open>gamma ** i\<close> is defined (\<open>gamma\<close> non-zero or \<open>i\<close> non-negative,
  and the power within the range of a float), each group's learning rate is
  \<open>base_lr + (max_lr - base_lr) * max(0, 1 - x) * gamma ** i\<close>. The decay is
  exponential in the batch index, not in the cycle count.
\<close>

theorem exp_range_scales_by_batch_index:
  assumes init: "CyclicLR_init oa base_arg max_arg step ''exp_range'' g None sm l = Inr s"
    and defined: "g \<noteq> 0 \<or> 0 \<le> i"
    and finite: "\<not> overflows (g powi i)"
  shows "CyclicLR_get_lr (s\<lparr>last_batch_idx := i\<rparr>) =
           Inr (map (\<lambda>(b, m). b + (m - b) * max 0 (1 - x_of (step_size s) i) * gamma s powi i)
                    (zip (base_lrs s) (max_lrs s)))"
proof -
  from CyclicLR_init_Inr [OF init] obtain lrs where
    st: "step_size s = step" and g: "gamma s = g" and
    sel: "scale_fn s = ExpRangeScaleFn" "scale_mode s = ''iterations''" and
    lrs: "CyclicLR_get_lr (s\<lparr>last_batch_idx := l + 1\<rparr>) = Inr lrs"
    by auto
  have nz: "step_size s \<noteq> 0"
    using lrs by (auto simp: CyclicLR_get_lr_def split: if_splits)
  let ?s = "s\<lparr>last_batch_idx := i\<rparr>"
  have "(if scale_mode ?s = ''cycle'' then call_scale_fn ?s (cycle_of (step_size s) i)
            else call_scale_fn ?s (last_batch_idx ?s)) = Inr (gamma s powi i)"
    using sel defined finite g by (auto simp: call_scale_fn_def exp_range_scale_fn_def)
  from get_lr_loop_scaled [OF this] show ?thesis
    using nz by (simp add: CyclicLR_get_lr_def)
qed

theorem exp_range_scales_by_batch_index_witness:
  "CyclicLR_init (IsOptimizer \<lparr>param_groups = [\<lparr>lr = 1/10\<rparr>]\<rparr>)
       (Scalar 0) (Scalar 1) 2 ''exp_range'' (1/2) None ''cycle'' (- 1)
     = Inr \<lparr>optimizer = \<lparr>param_groups = [\<lparr>lr = 0\<rparr>]\<rparr>,
            base_lrs = [0], max_lrs = [1], step_size = 2,
            mode = ''exp_range'', gamma = 1/2, scale_fn = ExpRangeScaleFn,
            scale_mode = ''iterations'', last_batch_idx = - 1\<rparr>
   \<and> (0::int) \<le> 5
   \<and> \<not> overflows ((1/2) powi 5)
   \<and> CyclicLR_get_lr \<lparr>optimizer = \<lparr>param_groups = [\<lparr>lr = 0\<rparr>]\<rparr>,
            base_lrs = [0], max_lrs = [1], step_size = 2,
            mode = ''exp_range'', gamma = 1/2, scale_fn = ExpRangeScaleFn,
            scale_mode = ''iterations'', last_batch_idx = 5\<rparr> = Inr [1/64]"
proof -
  have i: "CyclicLR_init (IsOptimizer \<lparr>param_groups = [\<lparr>lr = 1/10\<rparr>]\<rparr>)
       (Scalar 0) (Scalar 1) 2 ''exp_range'' (1/2) None ''cycle'' (- 1)
     = Inr \<lparr>optimizer = \<lparr>param_groups = [\<lparr>lr = 0\<rparr>]\<rparr>,
            base_lrs = [0], max_lrs = [1], step_size = 2,
            mode = ''exp_range'', gamma = 1/2, scale_fn = ExpRangeScaleFn,
            scale_mode = ''iterations'', last_batch_idx = - 1\<rparr>"
    by (simp add: CyclicLR_init_def CyclicLR_format_lr_def CyclicLR_batch_step_def
        CyclicLR_get_lr_def cycle_of_def x_of_def call_scale_fn_def exp_range_scale_fn_decay)
  have d: "(1/2 :: real) \<noteq> 0 \<or> (0::int) \<le> 5" by simp
  have f: "\<not> overflows ((1/2) powi 5)"
    by (intro not_overflows_le_one abs_powi_le_one) simp_all
  have "CyclicLR_get_lr \<lparr>optimizer = \<lparr>param_groups = [\<lparr>lr = 0\<rparr>]\<rparr>,
            base_lrs = [0], max_lrs = [1], step_size = 2,
            mode = ''exp_range'', gamma = 1/2, scale_fn = ExpRangeScaleFn,
            scale_mode = ''iterations'', last_batch_idx = 5\<rparr> = Inr [1/64]"
    using exp_range_scales_by_batch_index [OF i d f]
    by (simp add: x_of_def cycle_of_def power_int_def eval_nat_numeral)
  with i f show ?thesis by simp
qed

section \<open>C9: CyclicLR.step does nothing\<close>

text \<open>
  C9. For every argument, \<open>CyclicLR.step\<close> returns the scheduler as it was: the stored
  batch index and the learning rate of every parameter group of the optimizer are
  unchanged. The only function of the class that writes them is \<open>batch_step\<close>, which
  the constructor calls.
\<close>

theorem cyclic_lr_step_is_noop:
  "CyclicLR_step s epoch = s
   \<and> last_batch_idx (CyclicLR_step s epoch) = last_batch_idx s
   \<and> map lr (param_groups (optimizer (CyclicLR_step s epoch))) = map lr (param_groups (optimizer s))"
  by (simp add: CyclicLR_step_def)


section \<open>C10: the constructor steps the optimizer once\<close>

text \<open>
  C10. A successful construction has set the learning rate of each parameter group of
  the given optimizer to the value of the schedule at batch index
  \<open>last_batch_idx + 1\<close>, one value per group, and stores the constructor argument as
  \<open>last_batch_idx\<close>, not the index that was applied. With the default \<open>-1\<close> the applied
  index is 0 and every group's learning rate is its base learning rate.
\<close>

theorem cyclic_lr_init_sets_optimizer_lrs:
  assumes init: "CyclicLR_init (IsOptimizer opt) base_arg max_arg step md g fa sm l = Inr s"
  shows "(\<exists>lrs. CyclicLR_get_lr (s\<lparr>last_batch_idx := l + 1\<rparr>) = Inr lrs
            \<and> length lrs = length (param_groups opt)
            \<and> optimizer s = opt\<lparr>param_groups := assign_lrs (param_groups opt) lrs\<rparr>
            \<and> map lr (param_groups (optimizer s)) = lrs)
       \<and> last_batch_idx s = l
       \<and> (l = - 1 \<longrightarrow> map lr (param_groups (optimizer s)) = base_lrs s)"
proof -
  from CyclicLR_init_Inr [OF init] obtain lrs where
    b: "CyclicLR_format_lr ''base_lr'' opt base_arg = Inr (base_lrs s)" and
    m: "CyclicLR_format_lr ''max_lr'' opt max_arg = Inr (max_lrs s)" and
    last: "last_batch_idx s = l" and
    lrs: "CyclicLR_get_lr (s\<lparr>last_batch_idx := l + 1\<rparr>) = Inr lrs" and
    o: "optimizer s = opt\<lparr>param_groups := assign_lrs (param_groups opt) lrs\<rparr>"
    by auto
  have lb: "length (base_lrs s) = length (param_groups opt)"
    and lm: "length (max_lrs s) = length (param_groups opt)"
    using b m by (simp_all add: CyclicLR_format_lr_length)
  have len: "length lrs = length (param_groups opt)"
    using CyclicLR_get_lr_length [OF lrs] lb lm by simp
  have set: "map lr (param_groups (optimizer s)) = lrs"
    using len by (simp add: o map_lr_assign_lrs)
  have default: "map lr (param_groups (optimizer s)) = base_lrs s" if "l = - 1"
  proof -
    let ?s = "s\<lparr>last_batch_idx := 0\<rparr>"
    have lrs0: "CyclicLR_get_lr ?s = Inr lrs" using lrs that by simp
    then have nz: "step_size s \<noteq> 0"
      by (auto simp: CyclicLR_get_lr_def split: if_splits)
    have "CyclicLR_get_lr_loop ?s (cycle_of (step_size s) 0) 1 (zip (base_lrs s) (max_lrs s))
            = Inr lrs"
      using nz lrs0 by (simp add: CyclicLR_get_lr_def x_of_zero)
    then have "lrs = map fst (zip (base_lrs s) (max_lrs s))"
      by (rule get_lr_loop_at_peak_distance_one_result)
    then have "lrs = base_lrs s" using lb lm by simp
    then show ?thesis using set by simp
  qed
  show ?thesis using lrs len o set last default by blast
qed

theorem cyclic_lr_init_sets_optimizer_lrs_witness:
  "CyclicLR_init (IsOptimizer \<lparr>param_groups = [\<lparr>lr = 1/10\<rparr>, \<lparr>lr = 1/5\<rparr>]\<rparr>)
       (Scalar (1/1000)) (TupleArg [6/1000, 8/1000]) 4 ''triangular2'' 1 None ''cycle'' (- 1)
     = Inr \<lparr>optimizer = \<lparr>param_groups = [\<lparr>lr = 1/1000\<rparr>, \<lparr>lr = 1/1000\<rparr>]\<rparr>,
            base_lrs = [1/1000, 1/1000], max_lrs = [6/1000, 8/1000], step_size = 4,
            mode = ''triangular2'', gamma = 1, scale_fn = Triangular2ScaleFn,
            scale_mode = ''cycle'', last_batch_idx = - 1\<rparr>
   \<and> CyclicLR_get_lr \<lparr>optimizer = \<lparr>param_groups = [\<lparr>lr = 1/1000\<rparr>, \<lparr>lr = 1/1000\<rparr>]\<rparr>,
            base_lrs = [1/1000, 1/1000], max_lrs = [6/1000, 8/1000], step_size = 4,
            mode = ''triangular2'', gamma = 1, scale_fn = Triangular2ScaleFn,
            scale_mode = ''cycle'', last_batch_idx = 0\<rparr> = Inr [1/1000, 1/1000]"
proof -
  have i: "CyclicLR_init (IsOptimizer \<lparr>param_groups = [\<lparr>lr = 1/10\<rparr>, \<lparr>lr = 1/5\<rparr>]\<rparr>)
       (Scalar (1/1000)) (TupleArg [6/1000, 8/1000]) 4 ''triangular2'' 1 None ''cycle'' (- 1)
     = Inr \<lparr>optimizer = \<lparr>param_groups = [\<lparr>lr = 1/1000\<rparr>, \<lparr>lr = 1/1000\<rparr>]\<rparr>,
            base_lrs = [1/1000, 1/1000], max_lrs = [6/1000, 8/1000], step_size = 4,
            mode = ''triangular2'', gamma = 1, scale_fn = Triangular2ScaleFn,
            scale_mode = ''cycle'', last_batch_idx = - 1\<rparr>"
    by (simp add: CyclicLR_init_def CyclicLR_format_lr_def CyclicLR_batch_step_def
        CyclicLR_get_lr_def cycle_of_def x_of_def call_scale_fn_def triangular2_scale_fn_def
        numeral_2_eq_2)
  show ?thesis
    using i cyclic_lr_init_sets_optimizer_lrs [OF i] by simp
qed


section \<open>Facts about WarmRestartLR\<close>

lemma WarmRestartLR_format_lr_length:
  "WarmRestartLR_format_lr name opt a = Inr xs \<Longrightarrow> length xs = length (param_groups opt)"
  by (auto simp: WarmRestartLR_format_lr_def Let_def split: lr_arg.splits if_splits)

lemma np_elementwise_length:
  "length xs = length ys \<Longrightarrow> np_elementwise f xs ys = Inr zs \<Longrightarrow> length zs = length xs"
  by (auto simp: np_elementwise_def)

lemma np_elementwise_same_length:
  "length xs = length ys \<Longrightarrow> np_elementwise f xs ys = Inr (map (\<lambda>(x, y). f x y) (zip xs ys))"
  by (simp add: np_elementwise_def)

lemma WarmRestartLR_get_current_lr_length:
  assumes "length mins = length maxes" "WarmRestartLR_get_current_lr mins maxes P e = Inr lrs"
  shows "length lrs = length mins"
  using assms
  by (auto simp: WarmRestartLR_get_current_lr_def np_elementwise_same_length
           dest!: np_elementwise_length [rotated])

lemma WarmRestartLR_get_lr_length:
  assumes "length (min_lr w) = length (max_lr w)" "WarmRestartLR_get_lr w = Some (Inr lrs)"
  shows "length lrs = length (min_lr w)"
proof -
  from assms(2) obtain e P where
    "WarmRestartLR_get_current_lr (min_lr w) (max_lr w) P e = Inr lrs"
    by (auto simp: WarmRestartLR_get_lr_def split: option.splits sum.splits prod.splits)
  from WarmRestartLR_get_current_lr_length [OF assms(1) this] show ?thesis .
qed

lemma WarmRestartLR_init_Inr:
  assumes "WarmRestartLR_init opt a b bp pm le = Inr w"
  shows "WarmRestartLR_format_lr ''min_lr'' opt a = Inr (min_lr w)
       \<and> WarmRestartLR_format_lr ''max_lr'' opt b = Inr (max_lr w)
       \<and> base_period w = bp \<and> period_mult w = pm \<and> last_epoch w = le"
  using assms by (auto simp: WarmRestartLR_init_def split: sum.splits)

section \<open>C4: per-group arguments are a scalar or a sequence of the right length\<close>

text \<open>
  C4. For both schedulers: a list or tuple whose length differs from the number of
  parameter groups makes \<open>_format_lr\<close>, and so the constructor, raise the ValueError
  \<open>expected <groups> values for <name>, got <length>\<close> (for the first such argument
  in the order the constructor formats them); a scalar is broadcast to one entry per
  group; and whatever \<open>get_lr\<close> of a constructed scheduler returns, at any index, has
  one entry per parameter group of the optimizer.
\<close>

theorem per_group_lr_arguments_validated:
  "((a = ListArg xs \<or> a = TupleArg xs) \<and> length xs \<noteq> length (param_groups opt) \<longrightarrow>
        CyclicLR_format_lr name opt a
          = Inl (ValueError (expected_values_msg (length (param_groups opt)) name (length xs)))
      \<and> WarmRestartLR_format_lr name opt a
          = Inl (ValueError (expected_values_msg (length (param_groups opt)) name (length xs)))
      \<and> CyclicLR_init (IsOptimizer opt) a other step md g fa sm l
          = Inl (ValueError (expected_values_msg (length (param_groups opt)) ''base_lr'' (length xs)))
      \<and> ((\<exists>bs. CyclicLR_format_lr ''base_lr'' opt other = Inr bs) \<longrightarrow>
           CyclicLR_init (IsOptimizer opt) other a step md g fa sm l
             = Inl (ValueError (expected_values_msg (length (param_groups opt)) ''max_lr'' (length xs))))
      \<and> WarmRestartLR_init opt a other bp pm le
          = Inl (ValueError (expected_values_msg (length (param_groups opt)) ''min_lr'' (length xs)))
      \<and> ((\<exists>bs. WarmRestartLR_format_lr ''min_lr'' opt other = Inr bs) \<longrightarrow>
           WarmRestartLR_init opt other a bp pm le
             = Inl (ValueError (expected_values_msg (length (param_groups opt)) ''max_lr'' (length xs)))))
   \<and> CyclicLR_format_lr name opt (Scalar v) = Inr (replicate (length (param_groups opt)) v)
   \<and> WarmRestartLR_format_lr name opt (Scalar v) = Inr (replicate (length (param_groups opt)) v)
   \<and> (CyclicLR_init (IsOptimizer opt) b1 b2 step md g fa sm l = Inr s
        \<and> CyclicLR_get_lr (s\<lparr>last_batch_idx := i\<rparr>) = Inr lrs
        \<longrightarrow> length lrs = length (param_groups opt))
   \<and> (WarmRestartLR_init opt m1 m2 bp pm le = Inr w
        \<and> WarmRestartLR_get_lr (w\<lparr>last_epoch := e\<rparr>) = Some (Inr lrs')
        \<longrightarrow> length lrs' = length (param_groups opt))"
proof -
  let ?n = "length (param_groups opt)"
  have bad: "CyclicLR_format_lr nm opt a = Inl (ValueError (expected_values_msg ?n nm (length xs)))"
       "WarmRestartLR_format_lr nm opt a = Inl (ValueError (expected_values_msg ?n nm (length xs)))"
    if "a = ListArg xs \<or> a = TupleArg xs" "length xs \<noteq> ?n" for nm
    using that by (auto simp: CyclicLR_format_lr_def WarmRestartLR_format_lr_def)
  have scalar: "CyclicLR_format_lr name opt (Scalar v) = Inr (replicate ?n v)"
       "WarmRestartLR_format_lr name opt (Scalar v) = Inr (replicate ?n v)"
    by (simp_all add: CyclicLR_format_lr_def WarmRestartLR_format_lr_def)
  have cyc: "length lrs = ?n"
    if "CyclicLR_init (IsOptimizer opt) b1 b2 step md g fa sm l = Inr s"
       "CyclicLR_get_lr (s\<lparr>last_batch_idx := i\<rparr>) = Inr lrs"
  proof -
    from CyclicLR_init_Inr [OF that(1)] have
      "CyclicLR_format_lr ''base_lr'' opt b1 = Inr (base_lrs s)"
      "CyclicLR_format_lr ''max_lr'' opt b2 = Inr (max_lrs s)"
      by auto
    then have "length (base_lrs s) = ?n" "length (max_lrs s) = ?n"
      by (simp_all add: CyclicLR_format_lr_length)
    then show ?thesis using CyclicLR_get_lr_length [OF that(2)] by simp
  qed
  have wr: "length lrs' = ?n"
    if "WarmRestartLR_init opt m1 m2 bp pm le = Inr w"
       "WarmRestartLR_get_lr (w\<lparr>last_epoch := e\<rparr>) = Some (Inr lrs')"
  proof -
    from WarmRestartLR_init_Inr [OF that(1)] have
      "length (min_lr w) = ?n" "length (max_lr w) = ?n"
      by (auto dest: WarmRestartLR_format_lr_length)
    then show ?thesis using WarmRestartLR_get_lr_length [OF _ that(2)] by simp
  qed
  have c1: "CyclicLR_init (IsOptimizer opt) a other step md g fa sm l
          = Inl (ValueError (expected_values_msg ?n ''base_lr'' (length xs)))"
    if "a = ListArg xs \<or> a = TupleArg xs" "length xs \<noteq> ?n"
    using bad(1) [OF that] by (simp add: CyclicLR_init_def)
  have c2: "CyclicLR_init (IsOptimizer opt) other a step md g fa sm l
          = Inl (ValueError (expected_values_msg ?n ''max_lr'' (length xs)))"
    if "a = ListArg xs \<or> a = TupleArg xs" "length xs \<noteq> ?n"
       "\<exists>bs. CyclicLR_format_lr ''base_lr'' opt other = Inr bs"
    using bad(1) [OF that(1,2)] that(3) by (auto simp: CyclicLR_init_def)
  have w1: "WarmRestartLR_init opt a other bp pm le
          = Inl (ValueError (expected_values_msg ?n ''min_lr'' (length xs)))"
    if "a = ListArg xs \<or> a = TupleArg xs" "length xs \<noteq> ?n"
    using bad(2) [OF that] by (simp add: WarmRestartLR_init_def)
  have w2: "WarmRestartLR_init opt other a bp pm le
          = Inl (ValueError (expected_values_msg ?n ''max_lr'' (length xs)))"
    if "a = ListArg xs \<or> a = TupleArg xs" "length xs \<noteq> ?n"
       "\<exists>bs. WarmRestartLR_format_lr ''min_lr'' opt other = Inr bs"
    using bad(2) [OF that(1,2)] that(3) by (auto simp: WarmRestartLR_init_def)
  show ?thesis
    using bad [of name] scalar cyc wr c1 c2 w1 w2 by blast
qed

theorem per_group_lr_arguments_validated_witness:
  "CyclicLR_init (IsOptimizer \<lparr>param_groups = [\<lparr>lr = 1/10\<rparr>, \<lparr>lr = 1/5\<rparr>]\<rparr>) (ListArg [1, 2, 3]) (Scalar 1) 2 ''triangular'' 1 None ''cycle'' (- 1)
     = Inl (ValueError ''expected 2 values for base_lr, got 3'')
   \<and> CyclicLR_init (IsOptimizer \<lparr>param_groups = [\<lparr>lr = 1/10\<rparr>, \<lparr>lr = 1/5\<rparr>]\<rparr>) (Scalar 1) (ListArg [1, 2, 3]) 2 ''triangular'' 1 None ''cycle'' (- 1)
     = Inl (ValueError ''expected 2 values for max_lr, got 3'')
   \<and> WarmRestartLR_init \<lparr>param_groups = [\<lparr>lr = 1/10\<rparr>, \<lparr>lr = 1/5\<rparr>]\<rparr> (ListArg [1, 2, 3]) (Scalar 1) 10 2 (- 1)
     = Inl (ValueError ''expected 2 values for min_lr, got 3'')
   \<and> WarmRestartLR_init \<lparr>param_groups = [\<lparr>lr = 1/10\<rparr>, \<lparr>lr = 1/5\<rparr>]\<rparr> (Scalar 1) (ListArg [1, 2, 3]) 10 2 (- 1)
     = Inl (ValueError ''expected 2 values for max_lr, got 3'')
   \<and> CyclicLR_format_lr ''base_lr'' \<lparr>param_groups = [\<lparr>lr = 1/10\<rparr>, \<lparr>lr = 1/5\<rparr>]\<rparr> (Scalar 3) = Inr [3, 3]
   \<and> WarmRestartLR_format_lr ''base_lr'' \<lparr>param_groups = [\<lparr>lr = 1/10\<rparr>, \<lparr>lr = 1/5\<rparr>]\<rparr> (Scalar 3) = Inr [3, 3]
   \<and> CyclicLR_init (IsOptimizer \<lparr>param_groups = [\<lparr>lr = 1/10\<rparr>, \<lparr>lr = 1/5\<rparr>]\<rparr>) (Scalar (1/1000)) (Scalar (6/1000)) 2 ''triangular'' 1 None ''cycle'' (- 1)
     = Inr \<lparr>optimizer = \<lparr>param_groups = [\<lparr>lr = 1/1000\<rparr>, \<lparr>lr = 1/1000\<rparr>]\<rparr>,
            base_lrs = [1/1000, 1/1000], max_lrs = [6/1000, 6/1000], step_size = 2,
            mode = ''triangular'', gamma = 1, scale_fn = TriangularScaleFn,
            scale_mode = ''cycle'', last_batch_idx = - 1\<rparr>
   \<and> CyclicLR_get_lr \<lparr>optimizer = \<lparr>param_groups = [\<lparr>lr = 1/1000\<rparr>, \<lparr>lr = 1/1000\<rparr>]\<rparr>,
            base_lrs = [1/1000, 1/1000], max_lrs = [6/1000, 6/1000], step_size = 2,
            mode = ''triangular'', gamma = 1, scale_fn = TriangularScaleFn,
            scale_mode = ''cycle'', last_batch_idx = 1\<rparr> = Inr [7/2000, 7/2000]
   \<and> WarmRestartLR_init \<lparr>param_groups = [\<lparr>lr = 1/10\<rparr>, \<lparr>lr = 1/5\<rparr>]\<rparr> (Scalar 0) (Scalar 1) 10 2 (- 1) = Inr \<lparr>min_lr = [0, 0], max_lr = [1, 1], base_period = 10, period_mult = 2, last_epoch = - 1\<rparr>
   \<and> WarmRestartLR_get_lr \<lparr>min_lr = [0, 0], max_lr = [1, 1], base_period = 10, period_mult = 2, last_epoch = 10\<rparr> = Some (Inr [0, 0])
   \<and> length [7/2000, 7/2000 :: real] = length (param_groups \<lparr>param_groups = [\<lparr>lr = 1/10\<rparr>, \<lparr>lr = 1/5\<rparr>]\<rparr>)"
proof -
  have c: "CyclicLR_init (IsOptimizer \<lparr>param_groups = [\<lparr>lr = 1/10\<rparr>, \<lparr>lr = 1/5\<rparr>]\<rparr>) (Scalar (1/1000)) (Scalar (6/1000)) 2 ''triangular'' 1 None ''cycle'' (- 1)
     = Inr \<lparr>optimizer = \<lparr>param_groups = [\<lparr>lr = 1/1000\<rparr>, \<lparr>lr = 1/1000\<rparr>]\<rparr>,
            base_lrs = [1/1000, 1/1000], max_lrs = [6/1000, 6/1000], step_size = 2,
            mode = ''triangular'', gamma = 1, scale_fn = TriangularScaleFn,
            scale_mode = ''cycle'', last_batch_idx = - 1\<rparr>"
    by (simp add: CyclicLR_init_def CyclicLR_format_lr_def CyclicLR_batch_step_def
        CyclicLR_get_lr_def cycle_of_def x_of_def call_scale_fn_def triangular_scale_fn_def
        numeral_2_eq_2)
  have g: "CyclicLR_get_lr (\<lparr>optimizer = \<lparr>param_groups = [\<lparr>lr = 1/1000\<rparr>, \<lparr>lr = 1/1000\<rparr>]\<rparr>,
            base_lrs = [1/1000, 1/1000], max_lrs = [6/1000, 6/1000], step_size = 2,
            mode = ''triangular'', gamma = 1, scale_fn = TriangularScaleFn,
            scale_mode = ''cycle'', last_batch_idx = - 1\<rparr>\<lparr>last_batch_idx := 1\<rparr>) = Inr [7/2000, 7/2000]"
    by (simp add: CyclicLR_get_lr_def cycle_of_def x_of_def call_scale_fn_def triangular_scale_fn_def)
  have w: "WarmRestartLR_init \<lparr>param_groups = [\<lparr>lr = 1/10\<rparr>, \<lparr>lr = 1/5\<rparr>]\<rparr> (Scalar 0) (Scalar 1) 10 2 (- 1) = Inr \<lparr>min_lr = [0, 0], max_lr = [1, 1], base_period = 10, period_mult = 2, last_epoch = - 1\<rparr>"
    by (simp add: WarmRestartLR_init_def WarmRestartLR_format_lr_def numeral_2_eq_2)
  have h: "WarmRestartLR_get_lr (\<lparr>min_lr = [0, 0], max_lr = [1, 1], base_period = 10, period_mult = 2, last_epoch = - 1\<rparr>\<lparr>last_epoch := 10\<rparr>) = Some (Inr [0, 0])"
    by (simp add: WarmRestartLR_get_lr_def restart_loop.simps WarmRestartLR_get_current_lr_def
        np_elementwise_def)
  have bad: "length [1, 2, 3 :: real] \<noteq> length (param_groups \<lparr>param_groups = [\<lparr>lr = 1/10\<rparr>, \<lparr>lr = 1/5\<rparr>]\<rparr>)"
    by simp
  show ?thesis
    using c g w h bad
      per_group_lr_arguments_validated [where a = "ListArg [1, 2, 3]" and xs = "[1, 2, 3]"
        and opt = "\<lparr>param_groups = [\<lparr>lr = 1/10\<rparr>, \<lparr>lr = 1/5\<rparr>]\<rparr>" and name = "''base_lr''" and other = "Scalar 1"
        and step = 2 and md = "''triangular''" and g = 1 and fa = None and sm = "''cycle''"
        and l = "- 1" and bp = 10 and pm = 2 and le = "- 1" and v = 3
        and ?b1.0 = "Scalar (1/1000)" and ?b2.0 = "Scalar (6/1000)"
        and s = "\<lparr>optimizer = \<lparr>param_groups = [\<lparr>lr = 1/1000\<rparr>, \<lparr>lr = 1/1000\<rparr>]\<rparr>,
            base_lrs = [1/1000, 1/1000], max_lrs = [6/1000, 6/1000], step_size = 2,
            mode = ''triangular'', gamma = 1, scale_fn = TriangularScaleFn,
            scale_mode = ''cycle'', last_batch_idx = - 1\<rparr>" and i = 1 and lrs = "[7/2000, 7/2000]"
        and ?m1.0 = "Scalar 0" and ?m2.0 = "Scalar 1"
        and w = "\<lparr>min_lr = [0, 0], max_lr = [1, 1], base_period = 10, period_mult = 2, last_epoch = - 1\<rparr>" and e = 10 and lrs' = "[0, 0]"]
    by (simp add: expected_values_msg_def str_nat.simps CyclicLR_format_lr_def
        WarmRestartLR_format_lr_def numeral_2_eq_2)
qed


section \<open>The restart loop against the specification's loop\<close>

lemma spec_restart_state_unfold:
  "spec_restart_state m e P =
     (if e / P > 1 then spec_restart_state m (e - (P + 1)) (P * m) else Some (e, P))"
  unfolding spec_restart_state_def
  by (subst while_option_unfold) simp

lemma restart_loop_terminates_spec:
  assumes "restart_loop m e P = Some r"
  shows "spec_restart_state m e P \<noteq> None"
proof (rule restart_loop.raw_induct
    [where P = "\<lambda>m e P r. spec_restart_state m e P \<noteq> None", OF _ assms])
  fix loop :: "real \<Rightarrow> real \<Rightarrow> real \<Rightarrow> (py_error + real \<times> real) option"
    and m e P r
  assume IH: "\<And>m e P r. loop m e P = Some r \<Longrightarrow> spec_restart_state m e P \<noteq> None"
    and eq: "(if P = 0 then Some (Inl ZeroDivisionError)
              else if 1 < e / P then loop m (e - (P + 1)) (P * m)
              else Some (Inr (e, P))) = Some r"
  show "spec_restart_state m e P \<noteq> None"
  proof (cases "1 < e / P")
    case True
    then have "P \<noteq> 0" by auto
    with True eq have "loop m (e - (P + 1)) (P * m) = Some r" by simp
    from IH [OF this] show ?thesis
      using True by (subst spec_restart_state_unfold) simp
  next
    case False
    then show ?thesis by (subst spec_restart_state_unfold) simp
  qed
qed

lemma restart_loop_of_spec:
  assumes "spec_restart_state m e P = Some (e', P')"
  shows "restart_loop m e P =
           (if P' = 0 then Some (Inl ZeroDivisionError) else Some (Inr (e', P')))"
proof -
  let ?Q = "\<lambda>s. restart_loop m (fst s) (snd s) = restart_loop m e P"
  have step: "?Q (case s of (e, P) \<Rightarrow> (e - (P + 1), P * m))"
    if "?Q s" "case s of (e, P) \<Rightarrow> 1 < e / P" for s
  proof -
    obtain a b where s: "s = (a, b)" by (cases s)
    from that(2) have "1 < a / b" by (simp add: s)
    then have "b \<noteq> 0" by auto
    with \<open>1 < a / b\<close> have "restart_loop m a b = restart_loop m (a - (b + 1)) (b * m)"
      by (subst restart_loop.simps) simp
    with that(1) show ?thesis by (simp add: s)
  qed
  have stop: "\<not> 1 < e' / P'"
    using while_option_stop [OF assms [unfolded spec_restart_state_def]] by simp
  have "?Q (e', P')"
    by (rule while_option_rule [where P = ?Q, OF _ assms [unfolded spec_restart_state_def]])
       (use step in auto)
  then have "restart_loop m e P = restart_loop m e' P'" by simp
  also have "\<dots> = (if P' = 0 then Some (Inl ZeroDivisionError) else Some (Inr (e', P')))"
    using stop by (subst restart_loop.simps) simp
  finally show ?thesis .
qed

lemma restart_loop_refines_spec:
  "restart_loop m e P =
     (case spec_restart_state m e P of
        None \<Rightarrow> None
      | Some (e', P') \<Rightarrow>
          if P' = 0 then Some (Inl ZeroDivisionError) else Some (Inr (e', P')))"
proof (cases "spec_restart_state m e P")
  case None
  then have "restart_loop m e P = None"
    using restart_loop_terminates_spec [of m e P] by (cases "restart_loop m e P") auto
  with None show ?thesis by simp
next
  case (Some t)
  obtain e' P' where "t = (e', P')" by (cases t)
  with Some restart_loop_of_spec [of m e P e' P'] show ?thesis by simp
qed

lemma spec_restart_state_terminates:
  assumes "0 < P" "0 < m"
  shows "\<exists>n. spec_restart_state m e P =
           Some (e - (\<Sum>i<n. (P * m ^ i + 1)), P * m ^ n)"
  using assms
proof (induction "nat \<lceil>e\<rceil>" arbitrary: e P rule: less_induct)
  case less
  show ?case
  proof (cases "1 < e / P")
    case False
    then have "spec_restart_state m e P = Some (e, P)"
      by (subst spec_restart_state_unfold) simp
    then show ?thesis by (intro exI [of _ 0]) simp
  next
    case True
    with less.prems have gt: "P < e" by (simp add: field_simps)
    have "\<lceil>e - (P + 1)\<rceil> \<le> \<lceil>e\<rceil> - 1" using less.prems(1) by linarith
    moreover have "0 < \<lceil>e\<rceil>" using gt less.prems(1) by linarith
    ultimately have dec: "nat \<lceil>e - (P + 1)\<rceil> < nat \<lceil>e\<rceil>" by linarith
    have "0 < P * m" using less.prems by simp
    from less.hyps [OF dec this less.prems(2)] obtain n where
      n: "spec_restart_state m (e - (P + 1)) (P * m) =
            Some (e - (P + 1) - (\<Sum>i<n. (P * m * m ^ i + 1)), P * m * m ^ n)"
      by blast
    have sum: "(\<Sum>i<Suc n. (P * m ^ i + 1)) = (P + 1) + (\<Sum>i<n. (P * m * m ^ i + 1))"
      by (subst sum.lessThan_Suc_shift) (simp add: mult.assoc)
    have "spec_restart_state m e P = spec_restart_state m (e - (P + 1)) (P * m)"
      using True by (subst spec_restart_state_unfold) simp
    also have "\<dots> = Some (e - (\<Sum>i<Suc n. (P * m ^ i + 1)), P * m ^ Suc n)"
      unfolding n sum by (simp add: mult.assoc)
    finally have "spec_restart_state m e P =
            Some (e - (\<Sum>i<Suc n. (P * m ^ i + 1)), P * m ^ Suc n)" .
    then show ?thesis by blast
  qed
qed

lemma spec_half_cosine_start: "spec_half_cosine mn mx 0 P = mx"
proof -
  have "mn + 0.5 * (mx - mn) * (1 + 1) = mx" by argo
  then show ?thesis by (simp add: spec_half_cosine_def)
qed

lemma spec_half_cosine_end: "P \<noteq> 0 \<Longrightarrow> spec_half_cosine mn mx P P = mn"
  by (simp add: spec_half_cosine_def)

lemma spec_half_cosine_decreasing:
  assumes "mn \<le> mx" "0 \<le> e1" "e1 \<le> e2" "e2 \<le> P"
  shows "spec_half_cosine mn mx e2 P \<le> spec_half_cosine mn mx e1 P"
proof (cases "P = 0")
  case True
  then show ?thesis using assms by (simp add: spec_half_cosine_def)
next
  case False
  with assms have P: "0 < P" by simp
  have "0 \<le> e1 * pi / P" using assms P by simp
  moreover have "e1 * pi / P \<le> e2 * pi / P"
    using assms P by (simp add: divide_right_mono mult_right_mono)
  moreover have "e2 * pi / P \<le> pi"
    using assms P by (simp add: field_simps)
  ultimately have "cos (e2 * pi / P) \<le> cos (e1 * pi / P)"
    by (rule cos_monotone_0_pi_le)
  then have "(mx - mn) * (1 + cos (e2 * pi / P)) \<le> (mx - mn) * (1 + cos (e1 * pi / P))"
    using assms(1) by (intro mult_left_mono) simp_all
  then show ?thesis by (simp add: spec_half_cosine_def)
qed

lemma get_current_lr_half_cosine:
  assumes "length mins = length maxes"
  shows "WarmRestartLR_get_current_lr mins maxes P e =
           Inr (map (\<lambda>(mn, mx). spec_half_cosine mn mx e P) (zip mins maxes))"
proof -
  have 1: "np_elementwise (\<lambda>mx mn. mx - mn) maxes mins = Inr (map (\<lambda>(mx, mn). mx - mn) (zip maxes mins))"
    using assms by (simp add: np_elementwise_same_length)
  have "map (\<lambda>(mn, d). mn + 0.5 * d * (1 + cos (e * pi / P))) (zip mins (map (\<lambda>(mx, mn). mx - mn) (zip maxes mins)))
        = map (\<lambda>(mn, mx). spec_half_cosine mn mx e P) (zip mins maxes)"
    using assms by (induction mins maxes rule: list_induct2) (simp_all add: spec_half_cosine_def)
  then show ?thesis
    using assms by (simp add: WarmRestartLR_get_current_lr_def 1 np_elementwise_same_length)
qed

section \<open>C2: the warm-restart schedule\<close>

text \<open>
  C2. For a constructed scheduler and every epoch index, \<open>get_lr\<close> is determined by the
  loop of the specification: it starts from the index and the base period and, while
  the index divided by the period exceeds 1, subtracts the period plus one and
  multiplies the period by \<open>period_mult\<close>. When that loop ends with in-period epoch
  \<open>e\<close> and period \<open>P\<close>, \<open>get_lr\<close> returns, for each group,
  \<open>min_lr + 0.5 * (max_lr - min_lr) * (1 + cos (e * pi / P))\<close> (a period of zero raises
  ZeroDivisionError instead), and when the loop does not end neither does \<open>get_lr\<close>.
  For a positive base period and multiplier the loop ends, after some number \<open>n\<close> of
  restarts, with the period \<open>base_period * period_mult ^ n\<close>, so \<open>get_lr\<close> returns.
  Within a period the value is \<open>max_lr\<close> at \<open>e = 0\<close>, \<open>min_lr\<close> at \<open>e = P\<close>, and does not
  increase in between.
\<close>

theorem warm_restart_get_lr_half_cosine:
  assumes init: "WarmRestartLR_init opt min_arg max_arg bp pm le = Inr w"
  shows "WarmRestartLR_get_lr (w\<lparr>last_epoch := idx\<rparr>) =
           (case spec_restart_state pm (real_of_int idx) bp of
              None \<Rightarrow> None
            | Some (e, P) \<Rightarrow>
                if P = 0 then Some (Inl ZeroDivisionError)
                else Some (Inr (map (\<lambda>(mn, mx). spec_half_cosine mn mx e P)
                                   (zip (min_lr w) (max_lr w)))))
       \<and> (0 < bp \<and> 0 < pm \<longrightarrow>
            (\<exists>n e P. P = bp * pm ^ n
               \<and> e = real_of_int idx - (\<Sum>i<n. (bp * pm ^ i + 1))
               \<and> spec_restart_state pm (real_of_int idx) bp = Some (e, P)
               \<and> WarmRestartLR_get_lr (w\<lparr>last_epoch := idx\<rparr>) =
                     Some (Inr (map (\<lambda>(mn, mx). spec_half_cosine mn mx e P)
                                    (zip (min_lr w) (max_lr w))))))
       \<and> length (min_lr w) = length (param_groups opt)
       \<and> length (max_lr w) = length (param_groups opt)
       \<and> spec_half_cosine mn mx 0 Q = mx
       \<and> (Q \<noteq> 0 \<longrightarrow> spec_half_cosine mn mx Q Q = mn)
       \<and> (mn \<le> mx \<and> 0 \<le> e1 \<and> e1 \<le> e2 \<and> e2 \<le> Q \<longrightarrow>
             spec_half_cosine mn mx e2 Q \<le> spec_half_cosine mn mx e1 Q)"
proof -
  from WarmRestartLR_init_Inr [OF init] have
    mins: "WarmRestartLR_format_lr ''min_lr'' opt min_arg = Inr (min_lr w)" and
    maxes: "WarmRestartLR_format_lr ''max_lr'' opt max_arg = Inr (max_lr w)" and
    bp: "base_period w = bp" and pm: "period_mult w = pm"
    by simp_all
  have lmin: "length (min_lr w) = length (param_groups opt)"
    and lmax: "length (max_lr w) = length (param_groups opt)"
    using mins maxes by (simp_all add: WarmRestartLR_format_lr_length)
  then have same: "length (min_lr w) = length (max_lr w)" by simp
  let ?lrs = "\<lambda>e P. map (\<lambda>(mn, mx). spec_half_cosine mn mx e P) (zip (min_lr w) (max_lr w))"
  have refine: "WarmRestartLR_get_lr (w\<lparr>last_epoch := idx\<rparr>) =
           (case spec_restart_state pm (real_of_int idx) bp of
              None \<Rightarrow> None
            | Some (e, P) \<Rightarrow>
                if P = 0 then Some (Inl ZeroDivisionError) else Some (Inr (?lrs e P)))"
    by (simp add: WarmRestartLR_get_lr_def bp pm restart_loop_refines_spec
          get_current_lr_half_cosine [OF same] split: option.splits)
  have returns: "\<exists>n e P. P = bp * pm ^ n
               \<and> e = real_of_int idx - (\<Sum>i<n. (bp * pm ^ i + 1))
               \<and> spec_restart_state pm (real_of_int idx) bp = Some (e, P)
               \<and> WarmRestartLR_get_lr (w\<lparr>last_epoch := idx\<rparr>) = Some (Inr (?lrs e P))"
    if pos: "0 < bp" "0 < pm"
  proof -
    from spec_restart_state_terminates [OF pos, of "real_of_int idx"] obtain n where
      n: "spec_restart_state pm (real_of_int idx) bp =
            Some (real_of_int idx - (\<Sum>i<n. (bp * pm ^ i + 1)), bp * pm ^ n)"
      by blast
    have "bp * pm ^ n \<noteq> 0" using pos by simp
    then have "WarmRestartLR_get_lr (w\<lparr>last_epoch := idx\<rparr>) =
        Some (Inr (?lrs (real_of_int idx - (\<Sum>i<n. (bp * pm ^ i + 1))) (bp * pm ^ n)))"
      unfolding refine n by simp
    with n show ?thesis by blast
  qed
  show ?thesis
    using refine returns lmin lmax spec_half_cosine_start [of mn mx Q]
      spec_half_cosine_end [of Q mn mx] spec_half_cosine_decreasing [of mn mx e1 e2 Q]
    by blast
qed

theorem warm_restart_get_lr_half_cosine_witness:
  "WarmRestartLR_init \<lparr>param_groups = [\<lparr>lr = 1/10\<rparr>, \<lparr>lr = 1/5\<rparr>]\<rparr> (ListArg [0, 1/100]) (TupleArg [1, 1/2]) 10 2 (- 1)
     = Inr \<lparr>min_lr = [0, 1/100], max_lr = [1, 1/2], base_period = 10, period_mult = 2, last_epoch = - 1\<rparr>
   \<and> (0::real) < 10 \<and> (0::real) < 2
   \<and> spec_restart_state 2 (real_of_int 11) 10 = Some (0, 20)
   \<and> WarmRestartLR_get_lr \<lparr>min_lr = [0, 1/100], max_lr = [1, 1/2], base_period = 10, period_mult = 2, last_epoch = 11\<rparr> = Some (Inr [1, 1/2])
   \<and> spec_restart_state 2 (real_of_int 10) 10 = Some (10, 10)
   \<and> WarmRestartLR_get_lr \<lparr>min_lr = [0, 1/100], max_lr = [1, 1/2], base_period = 10, period_mult = 2, last_epoch = 10\<rparr> = Some (Inr [0, 1/100])"
proof -
  have i: "WarmRestartLR_init \<lparr>param_groups = [\<lparr>lr = 1/10\<rparr>, \<lparr>lr = 1/5\<rparr>]\<rparr> (ListArg [0, 1/100]) (TupleArg [1, 1/2]) 10 2 (- 1)
     = Inr \<lparr>min_lr = [0, 1/100], max_lr = [1, 1/2], base_period = 10, period_mult = 2, last_epoch = - 1\<rparr>"
    by (simp add: WarmRestartLR_init_def WarmRestartLR_format_lr_def)
  have s11: "spec_restart_state 2 (real_of_int 11) 10 = Some (0, 20)"
    by (simp add: spec_restart_state_unfold)
  have s10: "spec_restart_state 2 (real_of_int 10) 10 = Some (10, 10)"
    by (simp add: spec_restart_state_unfold)
  show ?thesis
    using i s11 s10
      warm_restart_get_lr_half_cosine [OF i, of 11 0 1 10 0 10]
      warm_restart_get_lr_half_cosine [OF i, of 10 0 1 10 0 10]
    by (simp add: spec_half_cosine_def)
qed


section \<open>C8: the Bernoulli likelihood of a Gaussian latent function\<close>

text \<open>
  C8. \<open>BernoulliLikelihood.forward\<close> raises a RuntimeError exactly when its input is
  not a \<open>GaussianRandomVariable\<close> (and raises nothing else). For a Gaussian input,
  with mean and variance vectors of one length and non-negative variances, it returns
  the \<open>BernoulliRandomVariable\<close> whose probabilities are \<open>normal_cdf\<close> applied to
  \<open>mean / sqrt (1 + variance)\<close>, entry by entry.
\<close>

theorem bernoulli_forward_probit:
  "((\<exists>msg. BernoulliLikelihood_forward normal_cdf input = Inl (RuntimeError msg))
      \<longleftrightarrow> (\<forall>mean var. input \<noteq> GaussianRandomVariable mean var))
   \<and> ((\<exists>e. BernoulliLikelihood_forward normal_cdf input = Inl e)
      \<longleftrightarrow> (\<forall>mean var. input \<noteq> GaussianRandomVariable mean var))
   \<and> BernoulliLikelihood_forward normal_cdf (NotGaussian type_name) =
       Inl (RuntimeError ''BernoulliLikelihood expects a Gaussian distributed latent function to make predictions'')
   \<and> (length mean = length var \<and> (\<forall>v \<in> set var. 0 \<le> v) \<longrightarrow>
        BernoulliLikelihood_forward normal_cdf (GaussianRandomVariable mean var) =
          Inr (BernoulliRandomVariable
                 (normal_cdf (map (\<lambda>(m, v). m / sqrt (1 + v)) (zip mean var)))))"
proof -
  have "map (\<lambda>(m, d). m / d) (zip mean (map (\<lambda>v. sqrt (1 + v)) var))
        = map (\<lambda>(m, v). m / sqrt (1 + v)) (zip mean var)"
    by (simp add: zip_map2 case_prod_beta)
  then show ?thesis
    by (cases input) (simp_all add: BernoulliLikelihood_forward_def)
qed

theorem bernoulli_forward_probit_witness:
  "length [0, 3 :: real] = length [0, 0 :: real]
   \<and> BernoulliLikelihood_forward (map (\<lambda>x. x / 4)) (GaussianRandomVariable [0, 3] [0, 0])
       = Inr (BernoulliRandomVariable [0, 3/4])
   \<and> BernoulliLikelihood_forward (map (\<lambda>x. x / 4)) (NotGaussian ''Tensor'')
       = Inl (RuntimeError ''BernoulliLikelihood expects a Gaussian distributed latent function to make predictions'')"
  using bernoulli_forward_probit [of "map (\<lambda>x. x / 4)" "NotGaussian ''Tensor''" "''Tensor''"
      "[0, 3]" "[0, 0]"]
  by simp

section \<open>C6: unknown constructor keywords are reported together\<close>

lemma str_join_contains:
  "k \<in> set xs \<Longrightarrow> \<exists>pre post. str_join sep xs = pre @ k @ post"
proof (induction sep xs rule: str_join.induct)
  case (1 sep)
  then show ?case by simp
next
  case (2 sep x)
  then have "str_join sep [x] = [] @ k @ []" by simp
  then show ?case by blast
next
  case (3 sep x y ys)
  show ?case
  proof (cases "k = x")
    case True
    then have "str_join sep (x # y # ys) = [] @ k @ (sep @ str_join sep (y # ys))" by simp
    then show ?thesis by blast
  next
    case False
    with 3 obtain pre post where "str_join sep (y # ys) = pre @ k @ post" by auto
    then have "str_join sep (x # y # ys) = (x @ sep @ pre) @ k @ post" by simp
    then show ?thesis by blast
  qed
qed

text \<open>
  C6. When at least one keyword argument of the constructor is not recognized, the
  constructor raises one TypeError whose message is built from all the unrecognized
  names, in the order they were passed, so each of them occurs in the message;
  otherwise the constructor raises nothing.
\<close>

theorem unknown_arguments_reported_together:
  "(if \<exists>key \<in> set (map fst kwargs). \<not> recognized key
    then NeuralNet_init recognized kwargs =
           Inl (TypeError (unexpected_arguments_msg
                  (filter (\<lambda>key. \<not> recognized key) (map fst kwargs))))
    else NeuralNet_init recognized kwargs = Inr kwargs)
   \<and> (\<forall>key \<in> set (map fst kwargs). \<not> recognized key \<longrightarrow>
         (\<exists>pre post. unexpected_arguments_msg
                        (filter (\<lambda>key. \<not> recognized key) (map fst kwargs))
                      = pre @ key @ post))"
proof -
  let ?bad = "filter (\<lambda>key. \<not> recognized key) (map fst kwargs)"
  have 1: "?bad \<noteq> [] \<longleftrightarrow> (\<exists>key \<in> set (map fst kwargs). \<not> recognized key)"
    by (auto simp: filter_empty_conv)
  have 2: "\<exists>pre post. unexpected_arguments_msg ?bad = pre @ key @ post"
    if "key \<in> set (map fst kwargs)" "\<not> recognized key" for key
  proof -
    from that have "key \<in> set ?bad" by simp
    from str_join_contains [OF this, of "'', ''"] obtain pre post where
      "str_join '', '' ?bad = pre @ key @ post" by blast
    then have "unexpected_arguments_msg ?bad =
        (''__init__() got unexpected argument(s) '' @ pre) @ key @ (post @ ''.''
     @ ''Either you made a typo, or you added new arguments ''
     @ ''in a subclass; if that is the case, the subclass ''
     @ ''should deal with the new arguments explicitely.'')"
      by (simp add: unexpected_arguments_msg_def)
    then show ?thesis by blast
  qed
  show ?thesis
    using 1 2 by (auto simp: NeuralNet_init_def Let_def)
qed

theorem unknown_arguments_reported_together_witness:
  "NeuralNet_init (\<lambda>key. key \<in> set [''lr'', ''max_epochs'', ''warm_start'', ''batch_size''])
      [(''lr'', ''0.1''), (''mxa_epochs'', ''5''), (''warm_start'', ''False''), (''bathc_size'', ''20'')]
    = Inl (TypeError ''__init__() got unexpected argument(s) mxa_epochs, bathc_size.Either you made a typo, or you added new arguments in a subclass; if that is the case, the subclass should deal with the new arguments explicitely.'')"
  using unknown_arguments_reported_together
    [of "[(''lr'', ''0.1''), (''mxa_epochs'', ''5''), (''warm_start'', ''False''), (''bathc_size'', ''20'')]"
        "\<lambda>key. key \<in> set [''lr'', ''max_epochs'', ''warm_start'', ''batch_size'']"]
  by (simp add: unexpected_arguments_msg_def)

section \<open>C7: saving and loading need an initialized net\<close>

text \<open>
  C7. On a net that is not initialized, \<open>save_params\<close> and \<open>load_params\<close> raise
  NotInitializedError, with a message telling the user to call \<open>.initialize()\<close> or
  \<open>.fit(...)\<close> first; the files are left as they were and the net keeps its parameters.
\<close>

theorem save_load_require_initialization:
  assumes "\<not> initialized net"
  shows "save_params net files path =
           (files, Some (NotInitializedError ''Cannot save parameters of an un-initialized model. Please initialize first by calling .initialize() or by fitting the model with .fit(...).''))
       \<and> load_params net files path =
           (net, Some (NotInitializedError ''Cannot load parameters of an un-initialized model. Please initialize first by calling .initialize() or by fitting the model with .fit(...).''))"
  using assms by (simp add: save_params_def load_params_def not_initialized_msg_def)

theorem save_load_require_initialization_witness:
  "\<not> initialized \<lparr>initialized = False, module_params = [1, 2 :: int]\<rparr>
   \<and> save_params \<lparr>initialized = False, module_params = [1, 2 :: int]\<rparr> Map.empty ''testmodel.pkl'' =
           (Map.empty, Some (NotInitializedError ''Cannot save parameters of an un-initialized model. Please initialize first by calling .initialize() or by fitting the model with .fit(...).''))
   \<and> load_params \<lparr>initialized = False, module_params = [1, 2 :: int]\<rparr> [''testmodel.pkl'' \<mapsto> [5, 6]] ''testmodel.pkl'' =
           (\<lparr>initialized = False, module_params = [1, 2 :: int]\<rparr>, Some (NotInitializedError ''Cannot load parameters of an un-initialized model. Please initialize first by calling .initialize() or by fitting the model with .fit(...).''))"
proof -
  have n: "\<not> initialized \<lparr>initialized = False, module_params = [1, 2 :: int]\<rparr>" by simp
  show ?thesis
    using n save_load_require_initialization [OF n, of Map.empty "''testmodel.pkl''"]
      save_load_require_initialization [OF n, of "[''testmodel.pkl'' \<mapsto> [5, 6]]" "''testmodel.pkl''"]
    by simp
qed


end
